theory Spec2Isabelle
  imports Main "HOL-Library.Word"
begin

section \<open>Data model\<close>

text \<open>
  Byte buffers of the filter package (\<^verbatim>\<open>[]byte\<close> with modular arithmetic) are lists of
  8-bit words. Textual buffers of the document package (object bodies, content streams,
  dictionary values, the tail of the file) are \<^typ>\<open>string\<close>: a \<^typ>\<open>char\<close> is one byte.
  Go's \<^verbatim>\<open>int\<close> is 64 bits wide; lengths of slices fit in it, and the model uses
  \<^typ>\<open>int\<close> and \<^typ>\<open>nat\<close>, with the wrap-around written out where a product of
  caller-supplied numbers is formed.
\<close>

type_synonym byte = "8 word"

datatype error =
    RunLengthLiteralShort
  | RunLengthRepeatShort
  | InvalidPNGDataSize
  | InvalidColumns
  | InvalidColors
  | InvalidBitsPerComponent
  | ZlibInitFailed
  | ZlibDecompressFailed
  | Ascii85Failed
  | LZWNotImplemented
  | CCITTNotImplemented
  | JBIG2NotImplemented
  | UnsupportedFilter string
  | FilterError string error
  | FilterParamsError
  | StartxrefNotFound
  | InvalidStartxrefOffset
  | InvalidReferenceFormat
  | InvalidObjectNumber
  | PanicIndexOutOfRange
  | PanicDivideByZero
  | PanicMakeSliceLen
  | PanicTypeAssertion
  | PanicSliceBounds

text \<open>Values of a parsed dictionary: a string, or a nested dictionary.\<close>

datatype pdf_value = Str string | Dict "(string \<times> pdf_value) list"

type_synonym dict = "string \<rightharpoonup> pdf_value"

section \<open>Helpers shared by the packages\<close>

definition is_digit :: "char \<Rightarrow> bool" where
  "is_digit c = (48 \<le> (of_char c :: int) \<and> (of_char c :: int) \<le> 57)"

text \<open>The class \<^verbatim>\<open>\s\<close> of Go's regexp package: tab, line feed, form feed, carriage return, space.\<close>

definition is_space :: "char \<Rightarrow> bool" where
  "is_space c = ((of_char c :: int) \<in> {9, 10, 12, 13, 32})"

fun digits_value :: "int \<Rightarrow> string \<Rightarrow> int" where
  "digits_value acc [] = acc"
| "digits_value acc (c # cs) = digits_value (acc * 10 + (of_char c - 48)) cs"

text \<open>
  \<^verbatim>\<open>strconv.Atoi\<close>: an optional sign, then one or more decimal digits. The result is
  the value and whether the error is nil. On a syntax error the value is 0; on a value
  outside the 64-bit range it is the nearest bound (and the error is not nil).
\<close>

definition Atoi :: "string \<Rightarrow> int \<times> bool" where
  "Atoi s =
     (let neg = (s \<noteq> [] \<and> hd s = CHR ''-'');
          body = (if s \<noteq> [] \<and> (hd s = CHR ''+'' \<or> hd s = CHR ''-'') then tl s else s)
      in if body = [] \<or> \<not> list_all is_digit body then (0, False)
         else (let v = (if neg then - digits_value 0 body else digits_value 0 body)
               in if v < - (2 ^ 63) then (- (2 ^ 63), False)
                  else if 2 ^ 63 - 1 < v then (2 ^ 63 - 1, False)
                  else (v, True)))"

text \<open>Go's integer division and remainder truncate towards zero.\<close>

definition go_quot :: "int \<Rightarrow> int \<Rightarrow> int" where
  "go_quot a b = sgn a * sgn b * (\<bar>a\<bar> div \<bar>b\<bar>)"

definition go_rem :: "int \<Rightarrow> int \<Rightarrow> int" where
  "go_rem a b = a - b * go_quot a b"

definition wrap64 :: "int \<Rightarrow> int" where
  "wrap64 x = (x + 2 ^ 63) mod 2 ^ 64 - 2 ^ 63"

text \<open>A counted loop \<^verbatim>\<open>for i := a; i < b; i++\<close> whose body may panic.\<close>

fun for_loop :: "nat list \<Rightarrow> (nat \<Rightarrow> 's \<Rightarrow> error + 's) \<Rightarrow> 's \<Rightarrow> error + 's" where
  "for_loop [] body s = Inr s"
| "for_loop (i # is) body s =
     (case body i s of Inl e \<Rightarrow> Inl e | Inr s' \<Rightarrow> for_loop is body s')"

section \<open>Package content: predictors\<close>

text \<open>\<^verbatim>\<open>copy(resultRow, rowData)\<close> where \<^verbatim>\<open>resultRow\<close> is the window of \<^verbatim>\<open>result\<close> starting at \<open>base\<close>.\<close>

definition copy_row :: "nat \<Rightarrow> byte list \<Rightarrow> byte list \<Rightarrow> byte list" where
  "copy_row base rowData result =
     take base result @ rowData @ drop (base + length rowData) result"

text \<open>
  Reading \<^verbatim>\<open>resultRow[j]\<close>: the window has \<open>n\<close> bytes, and an index outside it panics.
\<close>

definition read_row :: "byte list \<Rightarrow> nat \<Rightarrow> nat \<Rightarrow> int \<Rightarrow> error + byte" where
  "read_row result base n j =
     (if 0 \<le> j \<and> j < int n then Inr (result ! (base + nat j)) else Inl PanicIndexOutOfRange)"

definition abs_int :: "int \<Rightarrow> int" where
  "abs_int x = (if x < 0 then - x else x)"

definition paethPredictor :: "byte \<Rightarrow> byte \<Rightarrow> byte \<Rightarrow> byte" where
  "paethPredictor a b c =
     (let p = uint a + uint b - uint c;
          pa = abs_int (p - uint a);
          pb = abs_int (p - uint b);
          pc = abs_int (p - uint c)
      in if pa \<le> pb \<and> pa \<le> pc then a else if pb \<le> pc then b else c)"

definition sub_step :: "byte list \<Rightarrow> int \<Rightarrow> nat \<Rightarrow> nat \<Rightarrow> byte list \<Rightarrow> error + byte list" where
  "sub_step rowData bytesPerPixel base i result =
     (if int i < bytesPerPixel then Inr (result[base + i := rowData ! i])
      else (case read_row result base (length rowData) (int i - bytesPerPixel) of
              Inl e \<Rightarrow> Inl e
            | Inr left \<Rightarrow> Inr (result[base + i := rowData ! i + left])))"

definition up_step :: "byte list \<Rightarrow> nat \<Rightarrow> nat \<Rightarrow> nat \<Rightarrow> byte list \<Rightarrow> error + byte list" where
  "up_step rowData rowLength row i result =
     Inr (result[row * rowLength + i := rowData ! i + result ! ((row - 1) * rowLength + i)])"

definition average_step ::
  "byte list \<Rightarrow> int \<Rightarrow> nat \<Rightarrow> nat \<Rightarrow> nat \<Rightarrow> byte list \<Rightarrow> error + byte list" where
  "average_step rowData bytesPerPixel rowLength row i result =
     (case (if bytesPerPixel \<le> int i
            then read_row result (row * rowLength) (length rowData) (int i - bytesPerPixel)
            else Inr 0) of
        Inl e \<Rightarrow> Inl e
      | Inr left \<Rightarrow>
          (let up = (if 0 < row then result ! ((row - 1) * rowLength + i) else 0)
           in Inr (result[row * rowLength + i := rowData ! i + (left + up) div 2])))"

definition paeth_step ::
  "byte list \<Rightarrow> int \<Rightarrow> nat \<Rightarrow> nat \<Rightarrow> nat \<Rightarrow> byte list \<Rightarrow> error + byte list" where
  "paeth_step rowData bytesPerPixel rowLength row i result =
     (case (if bytesPerPixel \<le> int i
            then read_row result (row * rowLength) (length rowData) (int i - bytesPerPixel)
            else Inr 0) of
        Inl e \<Rightarrow> Inl e
      | Inr left \<Rightarrow>
          (let up = (if 0 < row then result ! ((row - 1) * rowLength + i) else 0) in
           case (if 0 < row \<and> bytesPerPixel \<le> int i
                 then (let k = int ((row - 1) * rowLength + i) - bytesPerPixel
                       in if 0 \<le> k \<and> k < int (length result) then Inr (result ! nat k)
                          else Inl PanicIndexOutOfRange)
                 else Inr 0) of
             Inl e \<Rightarrow> Inl e
           | Inr upLeft \<Rightarrow>
               Inr (result[row * rowLength + i := rowData ! i + paethPredictor left up upLeft])))"

text \<open>
  One iteration of the row loop of \<^verbatim>\<open>applyPNGPredictor\<close>. The slices \<^verbatim>\<open>rowData\<close> and
  \<^verbatim>\<open>resultRow\<close> panic when their bounds leave the buffers.
\<close>

definition png_row :: "byte list \<Rightarrow> int \<Rightarrow> nat \<Rightarrow> nat \<Rightarrow> byte list \<Rightarrow> error + byte list" where
  "png_row data bytesPerPixel rowLength row result =
     (let rowStride = rowLength + 1 in
      if length data < (row + 1) * rowStride \<or> length result < (row + 1) * rowLength
      then Inl PanicIndexOutOfRange
      else
        (let predictor = data ! (row * rowStride);
             rowData = take rowLength (drop (row * rowStride + 1) data);
             base = row * rowLength
         in if predictor = 0 then Inr (copy_row base rowData result)
            else if predictor = 1 then
              for_loop [0..<length rowData] (sub_step rowData bytesPerPixel base) result
            else if predictor = 2 then
              (if row = 0 then Inr (copy_row base rowData result)
               else for_loop [0..<length rowData] (up_step rowData rowLength row) result)
            else if predictor = 3 then
              for_loop [0..<length rowData] (average_step rowData bytesPerPixel rowLength row) result
            else if predictor = 4 then
              for_loop [0..<length rowData] (paeth_step rowData bytesPerPixel rowLength row) result
            else Inr (copy_row base rowData result)))"

text \<open>
  \<^verbatim>\<open>applyPNGPredictor\<close>. A row stride of zero makes the division panic; a negative stride
  gives a non-positive row count, so the loop body runs only when \<open>rowLength\<close> is not negative.
\<close>

definition applyPNGPredictor :: "byte list \<Rightarrow> int \<Rightarrow> int \<Rightarrow> int \<Rightarrow> error + byte list" where
  "applyPNGPredictor data columns bytesPerPixel rowLength =
     (let rowStride = rowLength + 1 in
      if rowStride = 0 then Inl PanicDivideByZero
      else
        (let rows = go_quot (int (length data)) rowStride in
         if rows = 0 \<or> go_rem (int (length data)) rowStride \<noteq> 0 then Inl InvalidPNGDataSize
         else if rows * rowLength < 0 then Inl PanicMakeSliceLen
         else for_loop [0..<nat rows] (png_row data bytesPerPixel (nat rowLength))
                (replicate (nat (rows * rowLength)) 0)))"

definition tiff_first_step :: "byte list \<Rightarrow> nat \<Rightarrow> nat \<Rightarrow> byte list \<Rightarrow> error + byte list" where
  "tiff_first_step rowData base i result =
     (if i < length rowData then Inr (result[base + i := rowData ! i])
      else Inl PanicIndexOutOfRange)"

definition tiff_rest_step :: "byte list \<Rightarrow> nat \<Rightarrow> nat \<Rightarrow> nat \<Rightarrow> byte list \<Rightarrow> error + byte list" where
  "tiff_rest_step rowData colors base i result =
     Inr (result[base + i := rowData ! i + result ! (base + (i - colors))])"

definition tiff_row :: "byte list \<Rightarrow> int \<Rightarrow> nat \<Rightarrow> nat \<Rightarrow> byte list \<Rightarrow> error + byte list" where
  "tiff_row data colors rowLength row result =
     (if length data < (row + 1) * rowLength \<or> length result < (row + 1) * rowLength
      then Inl PanicIndexOutOfRange
      else
        (let rowData = take rowLength (drop (row * rowLength) data);
             base = row * rowLength
         in case for_loop [0..<nat colors] (tiff_first_step rowData base) result of
              Inl e \<Rightarrow> Inl e
            | Inr result' \<Rightarrow>
                if colors < 0 then Inl PanicIndexOutOfRange
                else for_loop [nat colors..<length rowData]
                       (tiff_rest_step rowData (nat colors) base) result'))"

definition applyTIFFPredictor ::
  "byte list \<Rightarrow> int \<Rightarrow> int \<Rightarrow> int \<Rightarrow> int \<Rightarrow> error + byte list" where
  "applyTIFFPredictor data columns colors bitsPerComponent rowLength =
     (if bitsPerComponent \<noteq> 8 then Inr data
      else if rowLength = 0 then Inl PanicDivideByZero
      else
        (let rows = go_quot (int (length data)) rowLength in
         if rows * rowLength < 0 then Inl PanicMakeSliceLen
         else for_loop [0..<nat rows] (tiff_row data colors (nat rowLength))
                (replicate (nat (rows * rowLength)) 0)))"

text \<open>
  Reading an integer parameter of \<^verbatim>\<open>DecodeParms\<close>: absent gives the default, a value that
  is not a string makes the type assertion panic, a string that is no integer is an error.
\<close>

definition parm_int :: "dict \<Rightarrow> string \<Rightarrow> int \<Rightarrow> error \<Rightarrow> error + int" where
  "parm_int decodeParms key dflt err =
     (case decodeParms key of
        None \<Rightarrow> Inr dflt
      | Some (Dict d) \<Rightarrow> Inl PanicTypeAssertion
      | Some (Str s) \<Rightarrow> (case Atoi s of (v, ok) \<Rightarrow> if ok then Inr v else Inl err))"

definition applyPredictor :: "byte list \<Rightarrow> int \<Rightarrow> dict \<Rightarrow> error + byte list" where
  "applyPredictor data predictor decodeParms =
     (case parm_int decodeParms ''Columns'' 1 InvalidColumns of
        Inl e \<Rightarrow> Inl e
      | Inr columns \<Rightarrow>
     (case parm_int decodeParms ''Colors'' 1 InvalidColors of
        Inl e \<Rightarrow> Inl e
      | Inr colors \<Rightarrow>
     (case parm_int decodeParms ''BitsPerComponent'' 8 InvalidBitsPerComponent of
        Inl e \<Rightarrow> Inl e
      | Inr bitsPerComponent \<Rightarrow>
        (let bytesPerPixel = go_quot (wrap64 (wrap64 (colors * bitsPerComponent) + 7)) 8;
             rowLength =
               go_quot (wrap64 (wrap64 (wrap64 (columns * colors) * bitsPerComponent) + 7)) 8
         in if 10 \<le> predictor \<and> predictor \<le> 15 then
              applyPNGPredictor data columns bytesPerPixel rowLength
            else if predictor = 2 then
              applyTIFFPredictor data columns colors bitsPerComponent rowLength
            else Inr data))))"

section \<open>Package content: filters\<close>

function decodeRunLength_loop :: "byte list \<Rightarrow> nat \<Rightarrow> byte list \<Rightarrow> error + byte list" where
  "decodeRunLength_loop input i output =
     (if i < length input then
        (let len = unat (input ! i) in
         if len = 128 then Inr output
         else if len < 128 then
           (let copyLength = len + 1 in
            if i + 1 + copyLength > length input then Inl RunLengthLiteralShort
            else decodeRunLength_loop input (i + (1 + copyLength))
                   (output @ take copyLength (drop (i + 1) input)))
         else
           (let repeatLength = 257 - len in
            if i + 1 \<ge> length input then Inl RunLengthRepeatShort
            else decodeRunLength_loop input (i + 2)
                   (output @ replicate repeatLength (input ! (i + 1)))))
      else Inr output)"
  by pat_completeness auto
termination
  by (relation "measure (\<lambda>(input, i, output). length input - i)") auto

declare decodeRunLength_loop.simps [simp del]

definition decodeRunLength :: "byte list \<Rightarrow> error + byte list" where
  "decodeRunLength input = decodeRunLength_loop input 0 []"

text \<open>
  The decoders of Go's standard library (\<^verbatim>\<open>compress/zlib\<close>, \<^verbatim>\<open>encoding/ascii85\<close>) and the
  regular-expression driven \<^verbatim>\<open>utils.ParseDictionary\<close> are parameters of the model: each is a
  function from its input to an error or its result.
\<close>

record library =
  zlib_inflate :: "byte list \<Rightarrow> error + byte list"
  ascii85_decode :: "byte list \<Rightarrow> error + byte list"
  ParseDictionary :: "string \<Rightarrow> error + dict"

definition applySingleFilter ::
  "library \<Rightarrow> byte list \<Rightarrow> string \<Rightarrow> dict option \<Rightarrow> error + byte list" where
  "applySingleFilter lib stream filterType decodeParms =
     (if filterType = ''/FlatDecode'' then
        (case zlib_inflate lib stream of
           Inl e \<Rightarrow> Inl e
         | Inr decompressed \<Rightarrow>
             (case decodeParms of
                None \<Rightarrow> Inr decompressed
              | Some parms \<Rightarrow>
                  (case parms ''Predictor'' of
                     None \<Rightarrow> Inr decompressed
                   | Some (Dict d) \<Rightarrow> Inl PanicTypeAssertion
                   | Some (Str predictorStr) \<Rightarrow>
                       (let predictor = fst (Atoi predictorStr)
                        in if 1 < predictor then applyPredictor decompressed predictor parms
                           else Inr decompressed))))
      else if filterType = ''/ASCII85Decode'' then ascii85_decode lib stream
      else if filterType = ''/LZWDecode'' then Inl LZWNotImplemented
      else if filterType = ''/RunLengthDecode'' then decodeRunLength stream
      else if filterType = ''/DCTDecode'' then Inr stream
      else if filterType = ''/JPXDecode'' then Inr stream
      else if filterType = ''/CCITTFaxDecode'' then Inl CCITTNotImplemented
      else if filterType = ''/JBIG2Decode'' then Inl JBIG2NotImplemented
      else Inl (UnsupportedFilter filterType))"

section \<open>Package utils: arrays and references\<close>

definition has_prefix :: "'a list \<Rightarrow> 'a list \<Rightarrow> bool" where
  "has_prefix p s = (take (length p) s = p)"

definition has_suffix :: "'a list \<Rightarrow> 'a list \<Rightarrow> bool" where
  "has_suffix p s = (length p \<le> length s \<and> drop (length s - length p) s = p)"

definition is_blank :: "char \<Rightarrow> bool" where
  "is_blank c = (c = CHR '' '' \<or> c = CHR 0x09 \<or> c = CHR 0x0A \<or> c = CHR 0x0D)"

text \<open>
  The scan of \<^verbatim>\<open>ParseArray\<close> over the text between the brackets: the rest of the content,
  the two nesting counters, the item being built and the items found.
\<close>

fun ParseArray_loop :: "string \<Rightarrow> int \<Rightarrow> int \<Rightarrow> string \<Rightarrow> string list \<Rightarrow> string list" where
  "ParseArray_loop [] nestedLevel dictLevel currentItem items =
     (if currentItem \<noteq> [] then items @ [currentItem] else items)"
| "ParseArray_loop [c] nestedLevel dictLevel currentItem items =
     (if c = CHR ''['' then ParseArray_loop [] (nestedLevel + 1) dictLevel (currentItem @ [c]) items
      else if c = CHR '']'' then ParseArray_loop [] (nestedLevel - 1) dictLevel (currentItem @ [c]) items
      else if is_blank c \<and> nestedLevel = 0 \<and> dictLevel = 0 then
        (if currentItem \<noteq> [] then ParseArray_loop [] nestedLevel dictLevel [] (items @ [currentItem])
         else ParseArray_loop [] nestedLevel dictLevel currentItem items)
      else ParseArray_loop [] nestedLevel dictLevel (currentItem @ [c]) items)"
| "ParseArray_loop (c # d # cs) nestedLevel dictLevel currentItem items =
     (if c = CHR ''['' then
        ParseArray_loop (d # cs) (nestedLevel + 1) dictLevel (currentItem @ [c]) items
      else if c = CHR '']'' then
        ParseArray_loop (d # cs) (nestedLevel - 1) dictLevel (currentItem @ [c]) items
      else if c = CHR ''<'' \<and> d = CHR ''<'' then
        ParseArray_loop cs nestedLevel (dictLevel + 1) (currentItem @ ''<<'') items
      else if c = CHR ''>'' \<and> d = CHR ''>'' then
        ParseArray_loop cs nestedLevel (dictLevel - 1) (currentItem @ ''>>'') items
      else if is_blank c \<and> nestedLevel = 0 \<and> dictLevel = 0 then
        (if currentItem \<noteq> [] then
           ParseArray_loop (d # cs) nestedLevel dictLevel [] (items @ [currentItem])
         else ParseArray_loop (d # cs) nestedLevel dictLevel currentItem items)
      else ParseArray_loop (d # cs) nestedLevel dictLevel (currentItem @ [c]) items)"

definition ParseArray :: "string \<Rightarrow> string list" where
  "ParseArray arrayStr =
     (if \<not> has_prefix ''['' arrayStr \<or> \<not> has_suffix '']'' arrayStr then []
      else ParseArray_loop (take (length arrayStr - 2) (drop 1 arrayStr)) 0 0 [] [])"

text \<open>
  \<^verbatim>\<open>refPattern = (\d+)\s+\d+\s+R\<close>. The character classes of adjacent parts are disjoint, so a
  match that starts at a given position is unique: each run is taken whole. The search
  returns the match with the leftmost start; the result is the text of the first group.
\<close>

definition match_ref_at :: "string \<Rightarrow> string option" where
  "match_ref_at s =
     (let d1 = takeWhile is_digit s; r1 = dropWhile is_digit s;
          w1 = takeWhile is_space r1; r2 = dropWhile is_space r1;
          d2 = takeWhile is_digit r2; r3 = dropWhile is_digit r2;
          w2 = takeWhile is_space r3; r4 = dropWhile is_space r3
      in if d1 \<noteq> [] \<and> w1 \<noteq> [] \<and> d2 \<noteq> [] \<and> w2 \<noteq> [] \<and> has_prefix ''R'' r4
         then Some d1 else None)"

fun find_ref :: "string \<Rightarrow> string option" where
  "find_ref [] = None"
| "find_ref (c # cs) =
     (case match_ref_at (c # cs) of Some d \<Rightarrow> Some d | None \<Rightarrow> find_ref cs)"

definition ExtractReference :: "string \<Rightarrow> error + int" where
  "ExtractReference ref =
     (case find_ref ref of
        None \<Rightarrow> Inl InvalidReferenceFormat
      | Some d \<Rightarrow> (case Atoi d of (objNum, ok) \<Rightarrow>
                     if ok then Inr objNum else Inl InvalidObjectNumber))"

section \<open>Package content: the filter chain\<close>

text \<open>
  The parameters handed to filter \<open>i\<close> of an array (the body of the loop of
  \<^verbatim>\<open>DecompressStream\<close> before the call of \<^verbatim>\<open>applySingleFilter\<close>).
\<close>

definition filter_parms :: "library \<Rightarrow> dict option \<Rightarrow> nat \<Rightarrow> error + dict option" where
  "filter_parms lib decodeParms i =
     (case decodeParms of
        None \<Rightarrow> Inr None
      | Some parms \<Rightarrow>
          (case parms ''Array'' of
             None \<Rightarrow> Inr None
           | Some (Dict d) \<Rightarrow> Inl PanicTypeAssertion
           | Some (Str parmsArrayStr) \<Rightarrow>
               if has_prefix ''['' parmsArrayStr then
                 (let parmsItems = ParseArray parmsArrayStr in
                  if i < length parmsItems then
                    (if has_prefix ''<<'' (parmsItems ! i) then
                       (if length (parmsItems ! i) < 4 then Inl PanicSliceBounds
                        else (case ParseDictionary lib
                                     (take (length (parmsItems ! i) - 4) (drop 2 (parmsItems ! i))) of
                                Inl e \<Rightarrow> Inl FilterParamsError
                              | Inr d \<Rightarrow> Inr (Some d)))
                     else Inr (Some Map.empty))
                  else Inr None)
               else Inr None))"

definition is_panic :: "error \<Rightarrow> bool" where
  "is_panic e = (e = PanicIndexOutOfRange \<or> e = PanicDivideByZero \<or> e = PanicMakeSliceLen
                 \<or> e = PanicTypeAssertion \<or> e = PanicSliceBounds)"

text \<open>
  The loop \<^verbatim>\<open>for i := len(filterArray) - 1; i >= 0; i--\<close>; the counter of the model is
  \<open>i + 1\<close>. An error of a filter is wrapped with the filter's name; a panic is not caught.
\<close>

fun DecompressStream_loop ::
  "library \<Rightarrow> string list \<Rightarrow> dict option \<Rightarrow> nat \<Rightarrow> byte list \<Rightarrow> error + byte list" where
  "DecompressStream_loop lib filterArray decodeParms 0 result = Inr result"
| "DecompressStream_loop lib filterArray decodeParms (Suc i) result =
     (case filter_parms lib decodeParms i of
        Inl e \<Rightarrow> Inl e
      | Inr filterParms \<Rightarrow>
          (case applySingleFilter lib result (filterArray ! i) filterParms of
             Inl e \<Rightarrow> if is_panic e then Inl e else Inl (FilterError (filterArray ! i) e)
           | Inr result' \<Rightarrow> DecompressStream_loop lib filterArray decodeParms i result'))"

definition DecompressStream ::
  "library \<Rightarrow> byte list \<Rightarrow> string \<Rightarrow> dict option \<Rightarrow> error + byte list" where
  "DecompressStream lib stream filterSpec decodeParms =
     (if has_prefix ''['' filterSpec \<and> has_suffix '']'' filterSpec then
        (let filterArray = ParseArray filterSpec
         in DecompressStream_loop lib filterArray decodeParms (length filterArray) stream)
      else applySingleFilter lib stream filterSpec decodeParms)"

section \<open>Package document: locating the cross-reference table\<close>

text \<open>
  \<^verbatim>\<open>startxref\s*(\d+)\<close> matched at the start of \<open>s\<close>: the keyword, all the white space that
  follows, then all the digits that follow (at least one). The result is the first group.
\<close>

definition match_startxref_at :: "string \<Rightarrow> string option" where
  "match_startxref_at s =
     (if has_prefix ''startxref'' s then
        (let ds = takeWhile is_digit (dropWhile is_space (drop 9 s))
         in if ds \<noteq> [] then Some ds else None)
      else None)"

text \<open>\<^verbatim>\<open>FindSubmatch\<close>: the match with the leftmost start.\<close>

fun find_startxref :: "string \<Rightarrow> string option" where
  "find_startxref [] = None"
| "find_startxref (c # cs) =
     (case match_startxref_at (c # cs) of Some ds \<Rightarrow> Some ds | None \<Rightarrow> find_startxref cs)"

text \<open>
  \<^verbatim>\<open>findLastXRefOffset\<close> on a file given by its bytes. Seeking and reading a regular file
  succeed, and the read fills the buffer with the last \<open>bufSize\<close> bytes.
\<close>

definition findLastXRefOffset :: "string \<Rightarrow> error + int" where
  "findLastXRefOffset file =
     (let fileSize = length file;
          bufSize = (if fileSize < 1024 then fileSize else 1024);
          buffer = drop (fileSize - bufSize) file
      in case find_startxref buffer of
           None \<Rightarrow> Inl StartxrefNotFound
         | Some ds \<Rightarrow>
             if 2 ^ 63 - 1 < digits_value 0 ds then Inl InvalidStartxrefOffset
             else Inr (digits_value 0 ds))"

section \<open>Package document: objects, pages, fonts\<close>

text \<open>
  The records of \<^verbatim>\<open>objects.go\<close>. The floating-point fields of a page (its size and the
  positions of its text) play no part in what follows and are left out.
\<close>

record PDFObject =
  ObjectNumber :: int
  Generation :: int
  Content :: string
  Dictionary :: dict
  Stream :: string
  IsStream :: bool

record PDFPage =
  PageNumber :: int
  Contents :: string
  Text :: string
  ResourcesDict :: dict

record PDFFont =
  Name :: string
  Subtype :: string
  Encoding :: string
  ToUnicode :: string
  CodeToUnicode :: "int \<rightharpoonup> int"

text \<open>
  The font table is a Go map whose size is read; it is an association list with at most
  one pair for a key, looked up with \<^const>\<open>map_of\<close>.
\<close>

type_synonym font_table = "(string \<times> PDFFont) list"

definition set_font :: "string \<Rightarrow> PDFFont \<Rightarrow> font_table \<Rightarrow> font_table" where
  "set_font k f fonts = (k, f) # filter (\<lambda>p. fst p \<noteq> k) fonts"

record PDFDocument =
  Objects :: "int \<rightharpoonup> PDFObject"
  Pages :: "PDFPage list"
  TextChunks :: "string list"
  Fonts :: font_table

subsection \<open>Stream boundaries in \<^verbatim>\<open>loadObjects\<close>\<close>

text \<open>\<^verbatim>\<open>bytes.Index\<close>: the position of the first occurrence, if there is one.\<close>

fun index_from :: "string \<Rightarrow> string \<Rightarrow> nat \<Rightarrow> nat option" where
  "index_from sep [] k = (if sep = [] then Some k else None)"
| "index_from sep (c # cs) k =
     (if has_prefix sep (c # cs) then Some k else index_from sep cs (Suc k))"

definition index_of :: "string \<Rightarrow> string \<Rightarrow> nat option" where
  "index_of sep s = index_from sep s 0"

definition contains :: "string \<Rightarrow> string \<Rightarrow> bool" where
  "contains sep s = (index_of sep s \<noteq> None)"

text \<open>
  The scanner loop of \<^verbatim>\<open>loadObjects\<close> over the lines read from the object's offset: the
  first line with \<^verbatim>\<open>" obj"\<close> contributes what follows its first \<^verbatim>\<open>"obj"\<close>, every later line is
  added with a line feed, up to the first of them that contains \<^verbatim>\<open>"endobj"\<close>.
\<close>

fun read_body :: "string list \<Rightarrow> bool \<Rightarrow> string \<Rightarrow> string" where
  "read_body [] inObject contentBuffer = contentBuffer"
| "read_body (line # lines) inObject contentBuffer =
     (if \<not> inObject then
        (if contains '' obj'' line then
           read_body lines True
             (contentBuffer @ (case index_of ''obj'' line of
                                 None \<Rightarrow> [] | Some k \<Rightarrow> drop (k + 3) line))
         else read_body lines False contentBuffer)
      else
        (if contains ''endobj'' line then contentBuffer @ line @ [CHR 0x0A]
         else read_body lines True (contentBuffer @ line @ [CHR 0x0A])))"

definition object_body :: "string list \<Rightarrow> string" where
  "object_body lines =
     (let contentBytes = read_body lines False []
      in case index_of ''endobj'' contentBytes of
           None \<Rightarrow> contentBytes | Some idx \<Rightarrow> take idx contentBytes)"

text \<open>
  The check for a stream in \<^verbatim>\<open>loadObjects\<close>. The result is the raw stream when
  \<^verbatim>\<open>streamStart < streamEnd\<close>; indexing \<^verbatim>\<open>contentBytes\<close> at or after its length panics.
\<close>

definition stream_slice :: "string \<Rightarrow> nat \<Rightarrow> nat \<Rightarrow> string option" where
  "stream_slice contentBytes streamStart streamEnd =
     (if streamStart < streamEnd
      then Some (take (streamEnd - streamStart) (drop streamStart contentBytes))
      else None)"

definition detect_stream :: "string \<Rightarrow> error + string option" where
  "detect_stream contentBytes =
     (if contains ''stream'' contentBytes \<and> contains ''endstream'' contentBytes then
        (case (index_of ''stream'' contentBytes, index_of ''endstream'' contentBytes) of
           (Some k, Some streamEnd) \<Rightarrow>
             (let streamStart = k + 6 in
              if length contentBytes \<le> streamStart then Inl PanicIndexOutOfRange
              else if contentBytes ! streamStart = CHR 0x0D then
                (if length contentBytes \<le> streamStart + 1 then Inl PanicIndexOutOfRange
                 else if contentBytes ! (streamStart + 1) = CHR 0x0A
                 then Inr (stream_slice contentBytes (streamStart + 2) streamEnd)
                 else Inr (stream_slice contentBytes streamStart streamEnd))
              else if contentBytes ! streamStart = CHR 0x0A
              then Inr (stream_slice contentBytes (streamStart + 1) streamEnd)
              else Inr (stream_slice contentBytes streamStart streamEnd))
         | _ \<Rightarrow> Inr None)
      else Inr None)"

subsection \<open>The content of a page in \<^verbatim>\<open>processPageTree\<close>\<close>

text \<open>The loop over \<^verbatim>\<open>contentRefs\<close>, with the buffer \<^verbatim>\<open>allContents\<close>.\<close>

fun contents_loop :: "(int \<rightharpoonup> PDFObject) \<Rightarrow> string list \<Rightarrow> string \<Rightarrow> string" where
  "contents_loop objects [] allContents = allContents"
| "contents_loop objects (contentRef # contentRefs) allContents =
     (case ExtractReference contentRef of
        Inl e \<Rightarrow> contents_loop objects contentRefs allContents
      | Inr contentObjNum \<Rightarrow>
          (case objects contentObjNum of
             None \<Rightarrow> contents_loop objects contentRefs allContents
           | Some contentObj \<Rightarrow>
               if IsStream contentObj
               then contents_loop objects contentRefs
                      (allContents @ Stream contentObj @ [CHR 0x0A])
               else contents_loop objects contentRefs allContents))"

text \<open>
  The value stored in \<^verbatim>\<open>page.Contents\<close> for a page object with the given dictionary
  (the block "Get content stream" of \<^verbatim>\<open>processPageTree\<close>).
\<close>

definition page_contents :: "(int \<rightharpoonup> PDFObject) \<Rightarrow> dict \<Rightarrow> string" where
  "page_contents objects dictionary =
     (case dictionary ''Contents'' of
        None \<Rightarrow> []
      | Some (Dict d) \<Rightarrow> []
      | Some (Str contents) \<Rightarrow>
          if has_prefix ''['' contents then contents_loop objects (ParseArray contents) []
          else (case ExtractReference contents of
                  Inl e \<Rightarrow> []
                | Inr contentObjNum \<Rightarrow>
                    (case objects contentObjNum of
                       None \<Rightarrow> []
                     | Some contentObj \<Rightarrow>
                         if IsStream contentObj then Stream contentObj else [])))"

subsection \<open>Text chunks\<close>

text \<open>\<^verbatim>\<open>strings.Split(text, "\n")\<close>: one more piece than there are line feeds.\<close>

fun split_lines :: "string \<Rightarrow> string list" where
  "split_lines [] = [[]]"
| "split_lines (c # cs) =
     (if c = CHR 0x0A then [] # split_lines cs
      else (case split_lines cs of [] \<Rightarrow> [[c]] | l # ls \<Rightarrow> (c # l) # ls))"

text \<open>The text of all pages, each followed by a line feed.\<close>

definition all_text :: "PDFPage list \<Rightarrow> string" where
  "all_text pages = concat (map (\<lambda>page. Text page @ [CHR 0x0A]) pages)"

text \<open>The loop over the lines, with \<^verbatim>\<open>doc.TextChunks\<close> and \<^verbatim>\<open>currentChunk\<close>.\<close>

fun chunk_loop :: "string list \<Rightarrow> string list \<Rightarrow> string \<Rightarrow> string list \<times> string" where
  "chunk_loop [] chunks currentChunk = (chunks, currentChunk)"
| "chunk_loop (line # lines) chunks currentChunk =
     (let flush = (length currentChunk + length line + 1 > 1000 \<and> length currentChunk > 0);
          chunks' = (if flush then chunks @ [currentChunk] else chunks);
          current' = (if flush then [] else currentChunk);
          current'' = (if length current' > 0 then current' @ [CHR 0x0A] else current') @ line
      in chunk_loop lines chunks' current'')"

definition processTextChunks :: "PDFDocument \<Rightarrow> PDFDocument" where
  "processTextChunks doc =
     (case chunk_loop (split_lines (all_text (Pages doc))) (TextChunks doc) [] of
        (chunks, currentChunk) \<Rightarrow>
          doc\<lparr>TextChunks := (if length currentChunk > 0 then chunks @ [currentChunk] else chunks)\<rparr>)"

subsection \<open>Fonts\<close>

text \<open>\<^verbatim>\<open>processFonts\<close> of package document, the one \<^verbatim>\<open>ParsePDF\<close> calls.\<close>

definition processFonts :: "PDFDocument \<Rightarrow> PDFDocument" where
  "processFonts doc =
     doc\<lparr>Fonts := set_font ''/DefaultFont''
            \<lparr>Name = ''DefaultFont'', Subtype = [], Encoding = [], ToUnicode = [],
             CodeToUnicode = Map.empty\<rparr> (Fonts doc)\<rparr>"

text \<open>\<^verbatim>\<open>createDefaultFont\<close> of package text, with its two loops over the codes.\<close>

definition createDefaultFont :: "font_table \<Rightarrow> font_table" where
  "createDefaultFont fonts =
     (let m1 = fold (\<lambda>i m. m(int i \<mapsto> int i)) [0..<128] Map.empty;
          m2 = fold (\<lambda>i m. m(int i \<mapsto> int i)) [128..<256] m1
      in set_font ''/DefaultFont''
           \<lparr>Name = ''DefaultFont'', Subtype = [], Encoding = [], ToUnicode = [],
            CodeToUnicode = m2\<rparr> fonts)"

text \<open>
  The end of \<^verbatim>\<open>ProcessFonts\<close> of package text, after the fonts of the objects and of the
  pages have been collected in \<^verbatim>\<open>fp.Fonts\<close>.
\<close>

definition ensure_default_font :: "font_table \<Rightarrow> font_table" where
  "ensure_default_font fonts =
     (let fonts' = (if length fonts = 0 then createDefaultFont fonts else fonts)
      in if map_of fonts' ''/DefaultFont'' = None then createDefaultFont fonts' else fonts')"

text \<open>
  The font a text-showing operator is decoded with (the lookup before \<^verbatim>\<open>decodeText\<close> in
  \<^verbatim>\<open>extractTextWithPositioning\<close>); without any match it is the zero value of \<^verbatim>\<open>PDFFont\<close>.
\<close>

definition current_font :: "font_table \<Rightarrow> string \<Rightarrow> PDFFont" where
  "current_font fonts fontName =
     (case map_of fonts (''/'' @ fontName) of
        Some font \<Rightarrow> font
      | None \<Rightarrow>
          (case map_of fonts ''/DefaultFont'' of
             Some font \<Rightarrow> font
           | None \<Rightarrow> \<lparr>Name = [], Subtype = [], Encoding = [], ToUnicode = [],
                       CodeToUnicode = Map.empty\<rparr>))"

section \<open>Reference definitions\<close>

text \<open>
  Modelled from the spec: the repository has a run-length decoder and no encoder. The
  reference encoder below writes the format of the filter table: a length byte \<open>n < 128\<close>
  followed by \<open>n + 1\<close> literal bytes, a length byte \<open>n > 128\<close> followed by the byte to repeat
  \<open>257 - n\<close> times, and a final byte 128. The buffer is cut, from its end, into literal
  segments of 1 to 128 bytes and repeat segments of 2 to 128 equal bytes.
\<close>

datatype rl_segment = Literal "byte list" | Repeat nat byte

fun rl_cons :: "byte \<Rightarrow> rl_segment list \<Rightarrow> rl_segment list" where
  "rl_cons b [] = [Literal [b]]"
| "rl_cons b (Repeat n c # segs) =
     (if b = c \<and> n < 128 then Repeat (Suc n) c # segs
      else Literal [b] # Repeat n c # segs)"
| "rl_cons b (Literal [] # segs) = Literal [b] # segs"
| "rl_cons b (Literal [c] # segs) =
     (if b = c then Repeat 2 c # segs else Literal [b, c] # segs)"
| "rl_cons b (Literal (c # cs) # segs) =
     (if b = c then Repeat 2 c # Literal cs # segs
      else if length (c # cs) < 128 then Literal (b # c # cs) # segs
      else Literal [b] # Literal (c # cs) # segs)"

definition rl_segments :: "byte list \<Rightarrow> rl_segment list" where
  "rl_segments B = foldr rl_cons B []"

fun rl_emit :: "rl_segment \<Rightarrow> byte list" where
  "rl_emit (Literal cs) = of_nat (length cs - 1) # cs"
| "rl_emit (Repeat n c) = [of_nat (257 - n), c]"

definition encodeRunLength :: "byte list \<Rightarrow> byte list" where
  "encodeRunLength B = concat (map rl_emit (rl_segments B)) @ [128]"

fun rl_expand :: "rl_segment \<Rightarrow> byte list" where
  "rl_expand (Literal cs) = cs"
| "rl_expand (Repeat n c) = replicate n c"

fun rl_wf :: "rl_segment \<Rightarrow> bool" where
  "rl_wf (Literal cs) = (1 \<le> length cs \<and> length cs \<le> 128)"
| "rl_wf (Repeat n c) = (2 \<le> n \<and> n \<le> 128)"

text \<open>
  A chain of decoders applied one after the other in the order of the list, each with
  the parameters that go with it; the first error ends the chain and names its filter.
\<close>

fun filter_chain ::
  "library \<Rightarrow> (string \<times> dict option) list \<Rightarrow> byte list \<Rightarrow> error + byte list" where
  "filter_chain lib [] result = Inr result"
| "filter_chain lib ((filterType, filterParms) # rest) result =
     (case applySingleFilter lib result filterType filterParms of
        Inl e \<Rightarrow> if is_panic e then Inl e else Inl (FilterError filterType e)
      | Inr result' \<Rightarrow> filter_chain lib rest result')"

text \<open>
  The streams an array of content references resolves to, in the order of the array: an
  item counts when \<^verbatim>\<open>ExtractReference\<close> finds an object number in it and the object
  with that number is a stream.
\<close>

definition resolved_streams :: "(int \<rightharpoonup> PDFObject) \<Rightarrow> string list \<Rightarrow> string list" where
  "resolved_streams objects contentRefs =
     List.map_filter
       (\<lambda>contentRef.
          case ExtractReference contentRef of
            Inl e \<Rightarrow> None
          | Inr contentObjNum \<Rightarrow>
              (case objects contentObjNum of
                 None \<Rightarrow> None
               | Some contentObj \<Rightarrow>
                   if IsStream contentObj then Some (Stream contentObj) else None))
       contentRefs"

text \<open>Buffers joined with one line feed between consecutive ones and none at the end.\<close>

fun join_lines :: "string list \<Rightarrow> string" where
  "join_lines [] = []"
| "join_lines [s] = s"
| "join_lines (s # t # rest) = s @ [CHR 0x0A] @ join_lines (t # rest)"

text \<open>Example values: a stream object, an object table with streams 4 and 5, a document.\<close>

definition stream_object :: "int \<Rightarrow> string \<Rightarrow> PDFObject" where
  "stream_object n bytes =
     \<lparr>ObjectNumber = n, Generation = 0, Content = [], Dictionary = Map.empty,
      Stream = bytes, IsStream = True\<rparr>"

definition two_streams :: "int \<rightharpoonup> PDFObject" where
  "two_streams = [4 \<mapsto> stream_object 4 ''A'', 5 \<mapsto> stream_object 5 ''B'']"

definition text_document :: "string list \<Rightarrow> PDFDocument" where
  "text_document texts =
     \<lparr>Objects = Map.empty,
      Pages = map (\<lambda>t. \<lparr>PageNumber = 1, Contents = t, Text = t, ResourcesDict = Map.empty\<rparr>) texts,
      TextChunks = [], Fonts = []\<rparr>"

text \<open>A stand-in library whose decoders reject every input, for closed examples.\<close>

definition no_library :: library where
  "no_library = \<lparr>zlib_inflate = (\<lambda>s. Inl ZlibInitFailed),
                 ascii85_decode = (\<lambda>s. Inl Ascii85Failed),
                 ParseDictionary = (\<lambda>s. Inr Map.empty)\<rparr>"

section \<open>Run-length decoding\<close>

lemma rl_cons_wf: "list_all rl_wf segs \<Longrightarrow> list_all rl_wf (rl_cons b segs)"
  by (induction b segs rule: rl_cons.induct) auto

lemma rl_cons_expand:
  "concat (map rl_expand (rl_cons b segs)) = b # concat (map rl_expand segs)"
  by (induction b segs rule: rl_cons.induct) (auto simp: numeral_2_eq_2)

lemma unat_byte_of_nat: "k < 256 \<Longrightarrow> unat (of_nat k :: byte) = k"
  by (simp add: unat_of_nat)

lemma rl_segments_wf: "list_all rl_wf (rl_segments B)"
  by (induction B) (simp_all add: rl_segments_def rl_cons_wf)

lemma rl_segments_expand: "concat (map rl_expand (rl_segments B)) = B"
  by (induction B) (simp_all add: rl_segments_def rl_cons_expand)

text \<open>A literal run and a repeat run, each read by one iteration of the decoder.\<close>

lemma decode_literal:
  assumes "unat n + 1 = length cs" and "unat n < 128"
  shows "decodeRunLength_loop (pre @ n # cs @ rest) (length pre) out =
         decodeRunLength_loop (pre @ n # cs @ rest) (length pre + (1 + length cs)) (out @ cs)"
  apply (subst decodeRunLength_loop.simps)
  using assms by (simp add: Let_def nth_append)

lemma decode_repeat:
  assumes "128 < unat n" and "257 - unat n = k"
  shows "decodeRunLength_loop (pre @ n # c # rest) (length pre) out =
         decodeRunLength_loop (pre @ n # c # rest) (length pre + 2) (out @ replicate k c)"
  apply (subst decodeRunLength_loop.simps)
  using assms by (simp add: Let_def nth_append)

text \<open>One segment of the encoding moves the decoder past it and appends its bytes.\<close>

lemma decode_segment:
  assumes "rl_wf s"
  shows "decodeRunLength_loop (pre @ rl_emit s @ rest) (length pre) out =
         decodeRunLength_loop (pre @ rl_emit s @ rest)
           (length pre + length (rl_emit s)) (out @ rl_expand s)"
proof (cases s)
  case (Literal cs)
  with assms have len: "1 \<le> length cs" "length cs \<le> 128" by auto
  define n :: byte where "n = of_nat (length cs - 1)"
  have u: "unat n = length cs - 1"
    unfolding n_def using len by (intro unat_byte_of_nat) arith
  have e: "rl_emit s = n # cs" "rl_expand s = cs"
    by (simp_all add: Literal n_def)
  have "unat n + 1 = length cs" "unat n < 128"
    using u len by arith+
  from decode_literal [OF this, of pre rest out] show ?thesis
    by (simp add: e)
next
  case (Repeat k c)
  with assms have k: "2 \<le> k" "k \<le> 128" by auto
  define n :: byte where "n = of_nat (257 - k)"
  have u: "unat n = 257 - k"
    unfolding n_def using k by (intro unat_byte_of_nat) arith
  have e: "rl_emit s = [n, c]" "rl_expand s = replicate k c"
    by (simp_all add: Repeat n_def)
  have "128 < unat n" "257 - unat n = k"
    using u k by arith+
  from decode_repeat [OF this, of pre c rest out] show ?thesis
    by (simp add: e)
qed

lemma decode_segments:
  "list_all rl_wf segs \<Longrightarrow>
   decodeRunLength_loop (pre @ concat (map rl_emit segs) @ [128]) (length pre) out =
   Inr (out @ concat (map rl_expand segs))"
proof (induction segs arbitrary: pre out)
  case Nil
  show ?case by (subst decodeRunLength_loop.simps) (simp add: nth_append)
next
  case (Cons s segs)
  then have wf: "rl_wf s" and wfs: "list_all rl_wf segs" by auto
  let ?rest = "concat (map rl_emit segs) @ [128]"
  have "decodeRunLength_loop (pre @ concat (map rl_emit (s # segs)) @ [128]) (length pre) out =
        decodeRunLength_loop (pre @ rl_emit s @ ?rest) (length pre) out"
    by simp
  also have "\<dots> = decodeRunLength_loop (pre @ rl_emit s @ ?rest)
        (length pre + length (rl_emit s)) (out @ rl_expand s)"
    by (rule decode_segment [OF wf])
  also have "\<dots> = decodeRunLength_loop ((pre @ rl_emit s) @ ?rest)
        (length (pre @ rl_emit s)) (out @ rl_expand s)"
    by simp
  also have "\<dots> = Inr ((out @ rl_expand s) @ concat (map rl_expand segs))"
    by (rule Cons.IH [OF wfs])
  finally show ?case by simp
qed

text \<open>
  Claim C4. For every byte buffer \<open>B\<close>, decoding the run-length encoding of \<open>B\<close> succeeds
  and yields exactly \<open>B\<close>: \<^const>\<open>decodeRunLength\<close> is a left inverse of the reference
  encoder \<^const>\<open>encodeRunLength\<close>.
\<close>

theorem decodeRunLength_encodeRunLength: "decodeRunLength (encodeRunLength B) = Inr B"
  using decode_segments [OF rl_segments_wf, of "[]" B "[]"]
  by (simp add: decodeRunLength_def encodeRunLength_def rl_segments_expand)

text \<open>Claim C4 at a buffer with a run and with literals.\<close>

theorem decodeRunLength_encodeRunLength_witness:
  "decodeRunLength (encodeRunLength [7, 7, 7, 1, 2, 3]) = Inr [7, 7, 7, 1, 2, 3]"
  by (rule decodeRunLength_encodeRunLength)

section \<open>The filter chain\<close>

lemma decodeRunLength_short_literal: "decodeRunLength [0] = Inl RunLengthLiteralShort"
  unfolding decodeRunLength_def by (subst decodeRunLength_loop.simps) simp

text \<open>
  Claim C1, as stated, fails. On the array \<^verbatim>\<open>[/RunLengthDecode /LZWDecode]\<close> and the stream
  \<open>[0]\<close> (a literal run that lacks its byte) the first decoder \<^verbatim>\<open>DecompressStream\<close> applies
  to the raw bytes is the one of the last name: its error names \<^verbatim>\<open>/LZWDecode\<close>. Applying the
  filters in the order of the array fails in the first one, \<^verbatim>\<open>/RunLengthDecode\<close>.
\<close>

theorem DecompressStream_order_counterexample:
  "DecompressStream no_library [0] ''[/RunLengthDecode /LZWDecode]'' None =
     Inl (FilterError ''/LZWDecode'' LZWNotImplemented)
   \<and> filter_chain no_library [(''/RunLengthDecode'', None), (''/LZWDecode'', None)] [0] =
     Inl (FilterError ''/RunLengthDecode'' RunLengthLiteralShort)"
proof
  show "DecompressStream no_library [0] ''[/RunLengthDecode /LZWDecode]'' None =
        Inl (FilterError ''/LZWDecode'' LZWNotImplemented)"
    by code_simp
  show "filter_chain no_library [(''/RunLengthDecode'', None), (''/LZWDecode'', None)] [0] =
        Inl (FilterError ''/RunLengthDecode'' RunLengthLiteralShort)"
    by (simp add: applySingleFilter_def decodeRunLength_short_literal is_panic_def)
qed

lemma DecompressStream_loop_chain:
  "\<forall>i<n. filter_parms lib decodeParms i = Inr (ps i) \<Longrightarrow>
   DecompressStream_loop lib filterArray decodeParms n result =
   filter_chain lib (rev (map (\<lambda>i. (filterArray ! i, ps i)) [0..<n])) result"
proof (induction n arbitrary: result)
  case 0
  show ?case by simp
next
  case (Suc n)
  then have p: "filter_parms lib decodeParms n = Inr (ps n)"
    and rest: "\<forall>i<n. filter_parms lib decodeParms i = Inr (ps i)"
    by auto
  show ?case
    using Suc.IH [OF rest] by (simp add: p split: sum.splits)
qed

text \<open>
  Claim C1, amended. For every stream whose filter specification is an array,
  \<^verbatim>\<open>DecompressStream\<close> applies the filters in the reverse of the order of the array: the last
  filter of the array is the first decoder applied to the raw bytes, the one before it is
  applied to that result, and so on down to the first filter of the array; filter \<open>i\<close> is
  given the parameters \<open>ps i\<close> found for its position.
\<close>

theorem DecompressStream_reverse_order:
  assumes "has_prefix ''['' filterSpec" and "has_suffix '']'' filterSpec"
    and "\<forall>i<length (ParseArray filterSpec). filter_parms lib decodeParms i = Inr (ps i)"
  shows "DecompressStream lib stream filterSpec decodeParms =
         filter_chain lib
           (rev (map (\<lambda>i. (ParseArray filterSpec ! i, ps i))
                   [0..<length (ParseArray filterSpec)])) stream"
  using assms(1,2) DecompressStream_loop_chain [OF assms(3)]
  by (simp add: DecompressStream_def Let_def)

lemma ParseArray_two_filters:
  "ParseArray ''[/RunLengthDecode /DCTDecode]'' = [''/RunLengthDecode'', ''/DCTDecode'']"
  by code_simp

text \<open>
  Claim C1, amended, on the array \<^verbatim>\<open>[/RunLengthDecode /DCTDecode]\<close>: the pass-through
  decoder of the second name runs first, the run-length decoder second.
\<close>

theorem DecompressStream_reverse_order_witness:
  "has_prefix ''['' ''[/RunLengthDecode /DCTDecode]''
   \<and> has_suffix '']'' ''[/RunLengthDecode /DCTDecode]''
   \<and> DecompressStream no_library [0, 65, 128] ''[/RunLengthDecode /DCTDecode]'' None =
       filter_chain no_library [(''/DCTDecode'', None), (''/RunLengthDecode'', None)]
         [0, 65, 128]"
proof -
  have h1: "has_prefix ''['' ''[/RunLengthDecode /DCTDecode]''"
    by (simp add: has_prefix_def)
  have h2: "has_suffix '']'' ''[/RunLengthDecode /DCTDecode]''"
    by (simp add: has_suffix_def)
  have h3: "\<forall>i<length (ParseArray ''[/RunLengthDecode /DCTDecode]'').
              filter_parms no_library None i = Inr ((\<lambda>i. None) i)"
    by (simp add: filter_parms_def)
  have two: "[0..<2] = [0, Suc 0]"
    by (simp add: numeral_2_eq_2)
  show ?thesis
    using h1 h2 DecompressStream_reverse_order [OF h1 h2 h3, of "[0, 65, 128]"]
    by (simp add: ParseArray_two_filters two)
qed

text \<open>
  Claim C2 fails on the code for the name \<^verbatim>\<open>/FlateDecode\<close>: whatever the stream and the
  parameters, \<^verbatim>\<open>applySingleFilter\<close> rejects it as an unsupported filter type and inflates
  nothing. Only the misspelt name \<^verbatim>\<open>/FlatDecode\<close> reaches the zlib decoder.
\<close>

theorem applySingleFilter_FlateDecode_unsupported:
  "applySingleFilter lib stream ''/FlateDecode'' decodeParms =
     Inl (UnsupportedFilter ''/FlateDecode'')"
  by (simp add: applySingleFilter_def)

section \<open>The cross-reference offset\<close>

text \<open>
  Claim C3 fails on the code when the last 1024 bytes hold two \<^verbatim>\<open>startxref\<close> sections, as
  after an incremental update: the offset returned is the one that follows the first
  occurrence (100), not the last (200).
\<close>

theorem findLastXRefOffset_returns_first:
  "findLastXRefOffset
     (''startxref'' @ [CHR 0x0A] @ ''100'' @ [CHR 0x0A] @ ''%%EOF'' @ [CHR 0x0A] @
      ''startxref'' @ [CHR 0x0A] @ ''200'' @ [CHR 0x0A] @ ''%%EOF'' @ [CHR 0x0A]) = Inr 100"
  by code_simp

section \<open>Stream boundaries\<close>

text \<open>
  Claim C10 fails on the code. The object \<^verbatim>\<open>1 0 obj endstreamendobj\<close> on one line has the
  body \<^verbatim>\<open>" endstream"\<close>, of 10 bytes. The first \<^verbatim>\<open>stream\<close> in it is the tail of
  \<^verbatim>\<open>endstream\<close> and ends the body, so \<^verbatim>\<open>contentBytes[streamStart]\<close> reads index 10 and
  \<^verbatim>\<open>loadObjects\<close> panics.
\<close>

theorem loadObjects_stream_index_panics:
  "object_body [''1 0 obj endstreamendobj''] = '' endstream''
   \<and> detect_stream (object_body [''1 0 obj endstreamendobj'']) = Inl PanicIndexOutOfRange"
  by code_simp

end
